theory Spec2Isabelle
  imports Main
begin

section \<open>User-group views of \<open>zerver/views/user_groups.py\<close>\<close>

text \<open>
  The views of \<open>zerver/views/user_groups.py\<close> are embedded as functions on an explicit
  world: the external store and the sequence of calls the view has made to its
  collaborators. An exception of the source is the \<open>Inl\<close> branch of the result, and the
  world is returned in both branches, because a raise does not undo what was done before
  it.
\<close>

subsection \<open>Data\<close>

text \<open>
  \<open>UserProfile\<close> and \<open>UserGroup\<close> are the model classes of \<open>zerver.models\<close>, cut down
  to the attributes the views read: \<open>user_profile.id\<close>, \<open>user_profile.realm\<close>,
  \<open>user_group.name\<close> and \<open>user_group.description\<close>, with the group's own id and realm.
\<close>

record UserProfile =
  user_id :: int
  user_realm :: int

record UserGroup =
  group_id :: int
  group_name :: string
  group_description :: string
  group_realm :: int

text \<open>\<open>JsonableError\<close> of \<open>zerver.lib.exceptions\<close>, carrying its message.\<close>

datatype error = JsonableError string

text \<open>The data of a JSON response: a dictionary from keys to serialized values.\<close>

type_synonym payload = "string \<rightharpoonup> string"

text \<open>
  One constructor for each function of \<open>zerver.actions.user_groups\<close>,
  \<open>zerver.lib.user_groups\<close> and \<open>zerver.lib.users\<close> that the views call, with the
  arguments of the call: group and user objects are recorded by their ids.
\<close>

datatype call =
    Access_user_group_by_id int int
  | User_ids_to_users "int list" int
  | Get_direct_memberships_of_users int "int list"
  | Get_user_group_direct_members int
  | Bulk_add_members_to_user_group int "int list"
  | Remove_members_from_user_group int "int list"
  | Do_update_user_group_name int string
  | Do_update_user_group_description int string

record 'db world =
  calls :: "call list"
  db :: "'db"

text \<open>
  The collaborators are imported by the views and defined elsewhere, so they are
  parameters of the model. The four lookups read the store and may raise; the four
  actions update the store. An action is given the group object as the view resolved it:
  the model takes the actions to assign no attribute of that object other than the one
  they update, so that the description compared after a rename is the resolved one.
\<close>

record 'db collaborators =
  access_user_group_by_id :: "'db \<Rightarrow> int \<Rightarrow> UserProfile \<Rightarrow> error + UserGroup"
  user_ids_to_users :: "'db \<Rightarrow> int list \<Rightarrow> int \<Rightarrow> error + UserProfile list"
  get_direct_memberships_of_users :: "'db \<Rightarrow> UserGroup \<Rightarrow> UserProfile list \<Rightarrow> int list"
  get_user_group_direct_members :: "'db \<Rightarrow> UserGroup \<Rightarrow> int list"
  bulk_add_members_to_user_group :: "'db \<Rightarrow> UserGroup \<Rightarrow> int list \<Rightarrow> 'db"
  remove_members_from_user_group :: "'db \<Rightarrow> UserGroup \<Rightarrow> int list \<Rightarrow> 'db"
  do_update_user_group_name :: "'db \<Rightarrow> UserGroup \<Rightarrow> string \<Rightarrow> 'db"
  do_update_user_group_description :: "'db \<Rightarrow> UserGroup \<Rightarrow> string \<Rightarrow> 'db"

definition record_call :: "call \<Rightarrow> 'db world \<Rightarrow> 'db world" where
  "record_call c w = w\<lparr>calls := calls w @ [c]\<rparr>"

text \<open>A lookup: the call is recorded and the store is read.\<close>

definition lookup :: "call \<Rightarrow> ('db \<Rightarrow> 'a) \<Rightarrow> 'db world \<Rightarrow> 'db world \<times> 'a" where
  "lookup c f w = (record_call c w, f (db w))"

text \<open>An action: the call is recorded and the store is replaced.\<close>

definition action :: "call \<Rightarrow> ('db \<Rightarrow> 'db) \<Rightarrow> 'db world \<Rightarrow> 'db world" where
  "action c f w = (record_call c w)\<lparr>db := f (db w)\<rparr>"

subsection \<open>Request variables, messages and responses\<close>

text \<open>
  \<open>REQ(default=d)\<close>: a request variable that the request omits takes the default.
\<close>

fun REQ :: "'a \<Rightarrow> 'a option \<Rightarrow> 'a" where
  "REQ d None = d"
| "REQ d (Some v) = v"

text \<open>
  Python's \<open>str.format\<close> of an integer: decimal digits, with a minus sign below zero.
\<close>

definition str_digit :: "nat \<Rightarrow> char" where
  "str_digit n = ''0123456789'' ! n"

fun str_nat :: "nat \<Rightarrow> string" where
  "str_nat n =
     (if n < 10 then [str_digit n]
      else str_nat (n div 10) @ [str_digit (n mod 10)])"

declare str_nat.simps [simp del]

definition str_int :: "int \<Rightarrow> string" where
  "str_int i = (if i < 0 then CHR ''-'' # str_nat (nat (- i)) else str_nat (nat i))"

text \<open>
  The messages of the four \<open>JsonableError\<close>s the views raise themselves. \<open>gettext\<close>
  is taken as the identity (the untranslated message).
\<close>

definition no_new_data_supplied :: error where
  "no_new_data_supplied = JsonableError ''No new data supplied''"

definition nothing_to_do :: error where
  "nothing_to_do =
     JsonableError (''Nothing to do. Specify at least one of '' @ [CHR 0x22] @ ''add''
       @ [CHR 0x22] @ '' or '' @ [CHR 0x22] @ ''delete'' @ [CHR 0x22] @ ''.'')"

definition already_a_member :: "int \<Rightarrow> error" where
  "already_a_member uid =
     JsonableError (''User '' @ str_int uid @ '' is already a member of this group'')"

definition no_member :: "int \<Rightarrow> error" where
  "no_member member =
     JsonableError (''There is no member '' @ [CHR 0x27] @ str_int member @ [CHR 0x27]
       @ '' in this user group'')"

text \<open>
  Modelled from the spec: \<open>json_success\<close> of \<open>zerver.lib.response\<close> is not part of
  the source at hand. The spec gives the response without data as the empty success
  payload, and the response with data as that data.
\<close>

fun json_success :: "payload option \<Rightarrow> payload" where
  "json_success None = Map.empty"
| "json_success (Some data) = data"

text \<open>
  Modelled from the spec: \<open>compose_views\<close> of \<open>zerver.views.streams\<close> is not part
  of the source at hand. By the spec it merges the key/value pairs of the sub-operations'
  payloads into one, the later one winning on a shared key; a sub-operation that fails
  makes the whole request fail with no partial result, and what an earlier sub-operation
  has already changed is not rolled back. The spec does not say in which order the
  sub-operations run; the loop below takes the thunks in the order of the list, which is a
  choice of this model and not a fact about the helper.
\<close>

fun compose_views_loop ::
  "('w \<Rightarrow> 'w \<times> (error + payload)) list \<Rightarrow> payload \<Rightarrow> 'w \<Rightarrow> 'w \<times> (error + payload)" where
  "compose_views_loop [] json_dict w = (w, Inr json_dict)"
| "compose_views_loop (thunk # thunks) json_dict w =
     (case thunk w of
        (w', Inl e) \<Rightarrow> (w', Inl e)
      | (w', Inr response) \<Rightarrow> compose_views_loop thunks (json_dict ++ response) w')"

definition compose_views ::
  "('w \<Rightarrow> 'w \<times> (error + payload)) list \<Rightarrow> 'w \<Rightarrow> 'w \<times> (error + payload)" where
  "compose_views thunks w = compose_views_loop thunks Map.empty w"

subsection \<open>The views\<close>

text \<open>
  \<open>edit_user_group\<close>. \<open>not (name or description)\<close> holds exactly when both strings are
  empty.
\<close>

definition edit_user_group ::
  "'db collaborators \<Rightarrow> UserProfile \<Rightarrow> int \<Rightarrow> string option \<Rightarrow> string option
     \<Rightarrow> 'db world \<Rightarrow> 'db world \<times> (error + payload)" where
  "edit_user_group env user_profile user_group_id name_var description_var w =
     (let name = REQ '''' name_var; description = REQ '''' description_var in
      if \<not> (name \<noteq> [] \<or> description \<noteq> []) then (w, Inl no_new_data_supplied)
      else
        case lookup (Access_user_group_by_id user_group_id (user_id user_profile))
               (\<lambda>d. access_user_group_by_id env d user_group_id user_profile) w of
          (w1, Inl e) \<Rightarrow> (w1, Inl e)
        | (w1, Inr user_group) \<Rightarrow>
            let w2 = (if name \<noteq> group_name user_group
                      then action (Do_update_user_group_name (group_id user_group) name)
                             (\<lambda>d. do_update_user_group_name env d user_group name) w1
                      else w1);
                w3 = (if description \<noteq> group_description user_group
                      then action
                             (Do_update_user_group_description (group_id user_group) description)
                             (\<lambda>d. do_update_user_group_description env d user_group description) w2
                      else w2)
            in (w3, Inr (json_success None)))"

text \<open>
  The loop of \<open>add_members_to_group_backend\<close> over the resolved users: the first user
  whose id is in \<open>existing_member_ids\<close> raises.
\<close>

fun already_member_loop :: "int set \<Rightarrow> UserProfile list \<Rightarrow> error option" where
  "already_member_loop existing_member_ids [] = None"
| "already_member_loop existing_member_ids (user_profile # user_profiles) =
     (if user_id user_profile \<in> existing_member_ids
      then Some (already_a_member (user_id user_profile))
      else already_member_loop existing_member_ids user_profiles)"

definition add_members_to_group_backend ::
  "'db collaborators \<Rightarrow> UserProfile \<Rightarrow> int \<Rightarrow> int list
     \<Rightarrow> 'db world \<Rightarrow> 'db world \<times> (error + payload)" where
  "add_members_to_group_backend env user_profile user_group_id members w =
     (if members = [] then (w, Inr (json_success None))
      else
        case lookup (Access_user_group_by_id user_group_id (user_id user_profile))
               (\<lambda>d. access_user_group_by_id env d user_group_id user_profile) w of
          (w1, Inl e) \<Rightarrow> (w1, Inl e)
        | (w1, Inr user_group) \<Rightarrow>
           (case lookup (User_ids_to_users members (user_realm user_profile))
                   (\<lambda>d. user_ids_to_users env d members (user_realm user_profile)) w1 of
              (w2, Inl e) \<Rightarrow> (w2, Inl e)
            | (w2, Inr user_profiles) \<Rightarrow>
               (case lookup (Get_direct_memberships_of_users (group_id user_group)
                               (map user_id user_profiles))
                       (\<lambda>d. set (get_direct_memberships_of_users env d user_group user_profiles))
                       w2 of
                  (w3, existing_member_ids) \<Rightarrow>
                   (case already_member_loop existing_member_ids user_profiles of
                      Some e \<Rightarrow> (w3, Inl e)
                    | None \<Rightarrow>
                        let user_profile_ids = map user_id user_profiles in
                        (action (Bulk_add_members_to_user_group (group_id user_group)
                                   user_profile_ids)
                           (\<lambda>d. bulk_add_members_to_user_group env d user_group user_profile_ids)
                           w3,
                         Inr (json_success None))))))"

text \<open>
  The loop of \<open>remove_members_from_group_backend\<close> over the requested ids: the first id
  that is not in \<open>group_member_ids\<close> raises.
\<close>

fun no_member_loop :: "int list \<Rightarrow> int list \<Rightarrow> error option" where
  "no_member_loop group_member_ids [] = None"
| "no_member_loop group_member_ids (member # members) =
     (if member \<notin> set group_member_ids then Some (no_member member)
      else no_member_loop group_member_ids members)"

definition remove_members_from_group_backend ::
  "'db collaborators \<Rightarrow> UserProfile \<Rightarrow> int \<Rightarrow> int list
     \<Rightarrow> 'db world \<Rightarrow> 'db world \<times> (error + payload)" where
  "remove_members_from_group_backend env user_profile user_group_id members w =
     (if members = [] then (w, Inr (json_success None))
      else
        case lookup (User_ids_to_users members (user_realm user_profile))
               (\<lambda>d. user_ids_to_users env d members (user_realm user_profile)) w of
          (w1, Inl e) \<Rightarrow> (w1, Inl e)
        | (w1, Inr user_profiles) \<Rightarrow>
           (case lookup (Access_user_group_by_id user_group_id (user_id user_profile))
                   (\<lambda>d. access_user_group_by_id env d user_group_id user_profile) w1 of
              (w2, Inl e) \<Rightarrow> (w2, Inl e)
            | (w2, Inr user_group) \<Rightarrow>
               (case lookup (Get_user_group_direct_members (group_id user_group))
                       (\<lambda>d. get_user_group_direct_members env d user_group) w2 of
                  (w3, group_member_ids) \<Rightarrow>
                   (case no_member_loop group_member_ids members of
                      Some e \<Rightarrow> (w3, Inl e)
                    | None \<Rightarrow>
                        let user_profile_ids = map user_id user_profiles in
                        (action (Remove_members_from_user_group (group_id user_group)
                                   user_profile_ids)
                           (\<lambda>d. remove_members_from_user_group env d user_group user_profile_ids)
                           w3,
                         Inr (json_success None))))))"

text \<open>
  \<open>update_user_group_backend\<close>: the two thunks, in the order of the source's list, are
  handed to \<open>compose_views\<close>.
\<close>

definition update_user_group_backend ::
  "'db collaborators \<Rightarrow> UserProfile \<Rightarrow> int \<Rightarrow> int list option \<Rightarrow> int list option
     \<Rightarrow> 'db world \<Rightarrow> 'db world \<times> (error + payload)" where
  "update_user_group_backend env user_profile user_group_id delete_var add_var w =
     (let delete = REQ [] delete_var; add = REQ [] add_var in
      if add = [] \<and> delete = [] then (w, Inl nothing_to_do)
      else
        let thunks =
              [add_members_to_group_backend env user_profile user_group_id add,
               remove_members_from_group_backend env user_profile user_group_id delete]
        in case compose_views thunks w of
             (w', Inl e) \<Rightarrow> (w', Inl e)
           | (w', Inr data) \<Rightarrow> (w', Inr (json_success (Some data))))"

subsection \<open>A store for concrete requests\<close>

text \<open>
  Modelled from the spec: the collaborators are not part of the source at hand. This store
  follows the spec's data model (groups with a name and a description inside a realm,
  memberships as pairs of a group and a user) and its description of the collaborators:
  the group accessor fails on a group that is not found in the caller's realm, the user
  resolver fails on an id that is not a user of the realm and drops duplicates, the
  membership queries give the ids of the direct members, and the actions add or remove
  memberships and set the name or the description. It is the instance at which the
  theorems below are evaluated on concrete requests.
\<close>

record store =
  groups :: "UserGroup list"
  users :: "UserProfile list"
  memberships :: "(int \<times> int) list"

definition store_access_user_group_by_id :: "store \<Rightarrow> int \<Rightarrow> UserProfile \<Rightarrow> error + UserGroup" where
  "store_access_user_group_by_id d user_group_id user_profile =
     (case find (\<lambda>g. group_id g = user_group_id \<and> group_realm g = user_realm user_profile)
             (groups d) of
        None \<Rightarrow> Inl (JsonableError ''Invalid user group'')
      | Some g \<Rightarrow> Inr g)"

fun store_resolve_users :: "store \<Rightarrow> int list \<Rightarrow> int \<Rightarrow> error + UserProfile list" where
  "store_resolve_users d [] realm = Inr []"
| "store_resolve_users d (i # ids) realm =
     (case find (\<lambda>u. user_id u = i \<and> user_realm u = realm) (users d) of
        None \<Rightarrow> Inl (JsonableError (''Invalid user ID: '' @ str_int i))
      | Some u \<Rightarrow>
         (case store_resolve_users d ids realm of
            Inl e \<Rightarrow> Inl e
          | Inr us \<Rightarrow> Inr (u # us)))"

definition store_user_ids_to_users :: "store \<Rightarrow> int list \<Rightarrow> int \<Rightarrow> error + UserProfile list" where
  "store_user_ids_to_users d user_ids realm = store_resolve_users d (remdups user_ids) realm"

definition store_get_user_group_direct_members :: "store \<Rightarrow> UserGroup \<Rightarrow> int list" where
  "store_get_user_group_direct_members d user_group =
     map snd (filter (\<lambda>m. fst m = group_id user_group) (memberships d))"

definition store_get_direct_memberships_of_users ::
  "store \<Rightarrow> UserGroup \<Rightarrow> UserProfile list \<Rightarrow> int list" where
  "store_get_direct_memberships_of_users d user_group members =
     filter (\<lambda>i. i \<in> set (map user_id members)) (store_get_user_group_direct_members d user_group)"

definition store_bulk_add_members_to_user_group :: "store \<Rightarrow> UserGroup \<Rightarrow> int list \<Rightarrow> store" where
  "store_bulk_add_members_to_user_group d user_group user_profile_ids =
     d\<lparr>memberships := memberships d @ map (\<lambda>i. (group_id user_group, i)) user_profile_ids\<rparr>"

definition store_remove_members_from_user_group :: "store \<Rightarrow> UserGroup \<Rightarrow> int list \<Rightarrow> store" where
  "store_remove_members_from_user_group d user_group user_profile_ids =
     d\<lparr>memberships :=
         filter (\<lambda>m. \<not> (fst m = group_id user_group \<and> snd m \<in> set user_profile_ids))
           (memberships d)\<rparr>"

definition store_do_update_user_group_name :: "store \<Rightarrow> UserGroup \<Rightarrow> string \<Rightarrow> store" where
  "store_do_update_user_group_name d user_group name =
     d\<lparr>groups := map (\<lambda>g. if group_id g = group_id user_group then g\<lparr>group_name := name\<rparr> else g)
                    (groups d)\<rparr>"

definition store_do_update_user_group_description :: "store \<Rightarrow> UserGroup \<Rightarrow> string \<Rightarrow> store" where
  "store_do_update_user_group_description d user_group description =
     d\<lparr>groups :=
         map (\<lambda>g. if group_id g = group_id user_group then g\<lparr>group_description := description\<rparr>
                  else g)
           (groups d)\<rparr>"

definition store_env :: "store collaborators" where
  "store_env =
     \<lparr>access_user_group_by_id = store_access_user_group_by_id,
      user_ids_to_users = store_user_ids_to_users,
      get_direct_memberships_of_users = store_get_direct_memberships_of_users,
      get_user_group_direct_members = store_get_user_group_direct_members,
      bulk_add_members_to_user_group = store_bulk_add_members_to_user_group,
      remove_members_from_user_group = store_remove_members_from_user_group,
      do_update_user_group_name = store_do_update_user_group_name,
      do_update_user_group_description = store_do_update_user_group_description\<rparr>"

definition hamlet :: UserProfile where
  "hamlet = \<lparr>user_id = 4, user_realm = 1\<rparr>"

definition support :: UserGroup where
  "support = \<lparr>group_id = 10, group_name = ''support'', group_description = ''Support team'',
              group_realm = 1\<rparr>"

definition example_store :: store where
  "example_store =
     \<lparr>groups = [support],
      users = [hamlet, \<lparr>user_id = 5, user_realm = 1\<rparr>, \<lparr>user_id = 6, user_realm = 1\<rparr>,
               \<lparr>user_id = 7, user_realm = 1\<rparr>],
      memberships = [(10, 5)]\<rparr>"

definition example_world :: "store world" where
  "example_world = \<lparr>calls = [], db = example_store\<rparr>"

subsection \<open>Evaluation of the concrete store\<close>

lemmas store_simps = store_env_def example_world_def example_store_def support_def hamlet_def
  store_access_user_group_by_id_def store_user_ids_to_users_def
  store_get_user_group_direct_members_def store_get_direct_memberships_of_users_def
  store_bulk_add_members_to_user_group_def store_remove_members_from_user_group_def
  store_do_update_user_group_name_def store_do_update_user_group_description_def
  lookup_def action_def record_call_def str_int_def str_nat.simps str_digit_def

subsection \<open>The two loops\<close>

lemma already_member_loop_first:
  "\<forall>v \<in> set pre. user_id v \<notin> E \<Longrightarrow> user_id u \<in> E \<Longrightarrow>
   already_member_loop E (pre @ u # post) = Some (already_a_member (user_id u))"
  by (induction pre) simp_all

lemma no_member_loop_first:
  "\<forall>x \<in> set pre. x \<in> set G \<Longrightarrow> m \<notin> set G \<Longrightarrow>
   no_member_loop G (pre @ m # post) = Some (no_member m)"
  by (induction pre) simp_all

subsection \<open>Editing a group\<close>

text \<open>
  C1. An edit request whose name and description are both the empty string (supplied
  empty or omitted) fails with "No new data supplied". The world is returned as it was
  given: the group has not been resolved (no call is recorded, so whatever the group's
  name and description are plays no part) and neither the rename nor the redescription
  has been performed.
\<close>

theorem edit_user_group_no_new_data:
  assumes "REQ '''' name_var = ''''" and "REQ '''' description_var = ''''"
  shows "edit_user_group env user_profile user_group_id name_var description_var w =
           (w, Inl no_new_data_supplied)"
  using assms by (simp add: edit_user_group_def)

theorem edit_user_group_no_new_data_witness:
  "edit_user_group store_env hamlet 10 None (Some '''') example_world =
     (example_world, Inl (JsonableError ''No new data supplied''))"
  using edit_user_group_no_new_data [of None "Some ''''" store_env hamlet 10 example_world]
  by (simp add: no_new_data_supplied_def)

subsection \<open>Updating the membership: the empty request\<close>

text \<open>
  C2. A membership update whose add list and delete list are both empty fails with the
  "Nothing to do" error. The world is returned as it was given, so neither the add nor the
  remove sub-operation has run.
\<close>

theorem update_user_group_backend_nothing_to_do:
  assumes "REQ [] add_var = []" and "REQ [] delete_var = []"
  shows "update_user_group_backend env user_profile user_group_id delete_var add_var w =
           (w, Inl nothing_to_do)"
  using assms by (simp add: update_user_group_backend_def)

theorem update_user_group_backend_nothing_to_do_witness:
  "update_user_group_backend store_env hamlet 10 (Some []) None example_world =
     (example_world, Inl nothing_to_do)"
  using update_user_group_backend_nothing_to_do [of None "Some []" store_env hamlet 10 example_world]
  by simp

subsection \<open>Adding and removing members\<close>

text \<open>
  C7. An add-members call and a remove-members call with an empty member list return the
  success payload at once: the world is returned as it was given, so neither the group
  nor the users have been resolved and no membership has changed.
\<close>

theorem empty_member_list_is_no_op:
  "add_members_to_group_backend env user_profile user_group_id [] w = (w, Inr Map.empty) \<and>
   remove_members_from_group_backend env user_profile user_group_id [] w = (w, Inr Map.empty)"
  by (simp add: add_members_to_group_backend_def remove_members_from_group_backend_def)

theorem empty_member_list_is_no_op_witness:
  "add_members_to_group_backend store_env hamlet 10 [] example_world
     = (example_world, Inr Map.empty) \<and>
   remove_members_from_group_backend store_env hamlet 99 [] example_world
     = (example_world, Inr Map.empty)"
  using empty_member_list_is_no_op [of store_env hamlet 10 example_world]
    empty_member_list_is_no_op [of store_env hamlet 99 example_world]
  by simp

text \<open>
  C3. An add-members call that resolves its group and its users, where some resolved user
  is already a direct member, fails with the "already a member" error of the first such
  user of the resolved list. Only the three lookups have been made: the bulk add has not
  been called and the store is unchanged, so no user of the request has been added.
\<close>

theorem add_members_already_a_member:
  assumes "members \<noteq> []"
    and "access_user_group_by_id env (db w) user_group_id user_profile = Inr user_group"
    and "user_ids_to_users env (db w) members (user_realm user_profile) = Inr user_profiles"
    and "\<exists>u \<in> set user_profiles.
           user_id u \<in> set (get_direct_memberships_of_users env (db w) user_group user_profiles)"
  shows "\<exists>pre u post.
           user_profiles = pre @ u # post \<and>
           (\<forall>v \<in> set pre.
              user_id v \<notin> set (get_direct_memberships_of_users env (db w) user_group user_profiles)) \<and>
           user_id u \<in> set (get_direct_memberships_of_users env (db w) user_group user_profiles) \<and>
           add_members_to_group_backend env user_profile user_group_id members w =
             (w\<lparr>calls := calls w @
                  [Access_user_group_by_id user_group_id (user_id user_profile),
                   User_ids_to_users members (user_realm user_profile),
                   Get_direct_memberships_of_users (group_id user_group)
                     (map user_id user_profiles)]\<rparr>,
              Inl (already_a_member (user_id u)))"
proof -
  let ?E = "set (get_direct_memberships_of_users env (db w) user_group user_profiles)"
  from assms(4) obtain pre u post where
    split: "user_profiles = pre @ u # post" and u: "user_id u \<in> ?E"
    and pre: "\<forall>v \<in> set pre. user_id v \<notin> ?E"
    using split_list_first_prop [of user_profiles "\<lambda>u. user_id u \<in> ?E"] by blast
  have loop: "already_member_loop ?E user_profiles = Some (already_a_member (user_id u))"
    using already_member_loop_first [OF pre u, of post] split by simp
  have "add_members_to_group_backend env user_profile user_group_id members w =
          (w\<lparr>calls := calls w @
               [Access_user_group_by_id user_group_id (user_id user_profile),
                User_ids_to_users members (user_realm user_profile),
                Get_direct_memberships_of_users (group_id user_group)
                  (map user_id user_profiles)]\<rparr>,
           Inl (already_a_member (user_id u)))"
    using assms(1-3) loop
    by (simp add: add_members_to_group_backend_def lookup_def record_call_def)
  with split pre u show ?thesis by blast
qed

theorem add_members_already_a_member_witness:
  "add_members_to_group_backend store_env hamlet 10 [6, 5, 7] example_world =
     (\<lparr>calls = [Access_user_group_by_id 10 4, User_ids_to_users [6, 5, 7] 1,
                Get_direct_memberships_of_users 10 [6, 5, 7]],
       db = example_store\<rparr>,
      Inl (JsonableError ''User 5 is already a member of this group''))"
proof -
  let ?ups = "[\<lparr>user_id = 6, user_realm = 1\<rparr>, \<lparr>user_id = 5, user_realm = 1\<rparr>,
               \<lparr>user_id = 7, user_realm = 1\<rparr>]"
  have a: "[6, 5, 7 :: int] \<noteq> []" by simp
  have b: "access_user_group_by_id store_env (db example_world) 10 hamlet = Inr support"
    by (simp add: store_simps)
  have c: "user_ids_to_users store_env (db example_world) [6, 5, 7] (user_realm hamlet) = Inr ?ups"
    by (simp add: store_simps)
  have d: "\<exists>u \<in> set ?ups.
             user_id u \<in> set (get_direct_memberships_of_users store_env (db example_world) support ?ups)"
    by (simp add: store_simps)
  from add_members_already_a_member [OF a b c d]
  obtain pre u post where
    s: "?ups = pre @ u # post"
    and p: "\<forall>v \<in> set pre.
              user_id v \<notin> set (get_direct_memberships_of_users store_env (db example_world) support ?ups)"
    and u: "user_id u \<in> set (get_direct_memberships_of_users store_env (db example_world) support ?ups)"
    and r: "add_members_to_group_backend store_env hamlet 10 [6, 5, 7] example_world =
             (example_world\<lparr>calls := calls example_world @
                  [Access_user_group_by_id 10 (user_id hamlet),
                   User_ids_to_users [6, 5, 7] (user_realm hamlet),
                   Get_direct_memberships_of_users (group_id support) (map user_id ?ups)]\<rparr>,
              Inl (already_a_member (user_id u)))"
    by blast
  have m: "set (get_direct_memberships_of_users store_env (db example_world) support ?ups) = {5}"
    by (simp add: store_simps)
  from u m have "user_id u = 5" by simp
  with r show ?thesis
    by (simp add: already_a_member_def store_simps)
qed


text \<open>
  C4, as amended. A remove-members call whose requested ids resolve to users and whose
  group resolves, where some requested id is not among the group's direct member ids,
  fails with the "no member" error of the first such id of the requested list. Only the
  three lookups have been made: the removal has not been called and the store is
  unchanged.
\<close>

theorem remove_members_no_member:
  assumes "user_ids_to_users env (db w) members (user_realm user_profile) = Inr user_profiles"
    and "access_user_group_by_id env (db w) user_group_id user_profile = Inr user_group"
    and "\<exists>m \<in> set members. m \<notin> set (get_user_group_direct_members env (db w) user_group)"
  shows "\<exists>pre m post.
           members = pre @ m # post \<and>
           (\<forall>x \<in> set pre. x \<in> set (get_user_group_direct_members env (db w) user_group)) \<and>
           m \<notin> set (get_user_group_direct_members env (db w) user_group) \<and>
           remove_members_from_group_backend env user_profile user_group_id members w =
             (w\<lparr>calls := calls w @
                  [User_ids_to_users members (user_realm user_profile),
                   Access_user_group_by_id user_group_id (user_id user_profile),
                   Get_user_group_direct_members (group_id user_group)]\<rparr>,
              Inl (no_member m))"
proof -
  let ?G = "get_user_group_direct_members env (db w) user_group"
  from assms(3) obtain pre m post where
    split: "members = pre @ m # post" and m: "m \<notin> set ?G"
    and pre: "\<forall>x \<in> set pre. \<not> x \<notin> set ?G"
    using split_list_first_prop [of members "\<lambda>m. m \<notin> set ?G"] by blast
  from pre have pre': "\<forall>x \<in> set pre. x \<in> set ?G" by simp
  have ne: "members \<noteq> []" using split by simp
  have loop: "no_member_loop ?G members = Some (no_member m)"
    using no_member_loop_first [OF pre' m, of post] split by simp
  have "remove_members_from_group_backend env user_profile user_group_id members w =
          (w\<lparr>calls := calls w @
               [User_ids_to_users members (user_realm user_profile),
                Access_user_group_by_id user_group_id (user_id user_profile),
                Get_user_group_direct_members (group_id user_group)]\<rparr>,
           Inl (no_member m))"
    using ne assms(1,2) loop
    by (simp add: remove_members_from_group_backend_def lookup_def record_call_def)
  with split pre' m show ?thesis by blast
qed

theorem remove_members_no_member_witness:
  "remove_members_from_group_backend store_env hamlet 10 [5, 6, 7] example_world =
     (\<lparr>calls = [User_ids_to_users [5, 6, 7] 1, Access_user_group_by_id 10 4,
                Get_user_group_direct_members 10],
       db = example_store\<rparr>,
      Inl (JsonableError (''There is no member '' @ [CHR 0x27] @ ''6'' @ [CHR 0x27]
             @ '' in this user group'')))"
proof -
  let ?ups = "[\<lparr>user_id = 5, user_realm = 1\<rparr>, \<lparr>user_id = 6, user_realm = 1\<rparr>,
               \<lparr>user_id = 7, user_realm = 1\<rparr>]"
  let ?G = "get_user_group_direct_members store_env (db example_world) support"
  have G: "?G = [5]" by (simp add: store_simps)
  have a: "user_ids_to_users store_env (db example_world) [5, 6, 7] (user_realm hamlet) = Inr ?ups"
    by (simp add: store_simps)
  have b: "access_user_group_by_id store_env (db example_world) 10 hamlet = Inr support"
    by (simp add: store_simps)
  have c: "\<exists>m \<in> set [5, 6, 7]. m \<notin> set ?G"
    unfolding G by simp
  from remove_members_no_member [OF a b c]
  obtain pre m post where
    s: "[5, 6, 7] = pre @ m # post"
    and p: "\<forall>x \<in> set pre. x \<in> set ?G"
    and m: "m \<notin> set ?G"
    and r: "remove_members_from_group_backend store_env hamlet 10 [5, 6, 7] example_world =
             (example_world\<lparr>calls := calls example_world @
                  [User_ids_to_users [5, 6, 7] (user_realm hamlet),
                   Access_user_group_by_id 10 (user_id hamlet),
                   Get_user_group_direct_members (group_id support)]\<rparr>,
              Inl (no_member m))"
    by blast
  have "m = 6"
  proof (cases pre)
    case Nil
    with s m G show ?thesis by simp
  next
    case (Cons x pre')
    with s have x: "x = 5" and rest: "[6, 7] = pre' @ m # post" by simp_all
    show ?thesis
    proof (cases pre')
      case Nil
      with rest show ?thesis by simp
    next
      case (Cons y pre'')
      with rest have "y = 6" by simp
      with p \<open>pre = x # pre'\<close> \<open>pre' = y # pre''\<close> G show ?thesis by simp
    qed
  qed
  with r show ?thesis
    by (simp add: no_member_def store_simps)
qed

text \<open>
  C4 as stated does not hold for a call whose ids do not resolve: the users are resolved
  first, so the request to remove the id 99, which is no user of the realm and no member
  of the group, fails with the resolver's error and not with the "no member" error.
\<close>

theorem remove_members_invalid_user_counterexample:
  "(99::int) \<in> set [99] \<and>
   access_user_group_by_id store_env (db example_world) 10 hamlet = Inr support \<and>
   99 \<notin> set (get_user_group_direct_members store_env (db example_world) support) \<and>
   snd (remove_members_from_group_backend store_env hamlet 10 [99] example_world) =
     Inl (JsonableError ''Invalid user ID: 99'') \<and>
   snd (remove_members_from_group_backend store_env hamlet 10 [99] example_world) \<noteq>
     Inl (no_member 99)"
  by (simp add: remove_members_from_group_backend_def no_member_def store_simps)

subsection \<open>Editing a group: what is updated\<close>

text \<open>
  C5. An edit request that passes the emptiness check and resolves its group calls the
  rename exactly when the supplied name differs from the group's name, and then the
  redescription exactly when the supplied description differs from the group's
  description; nothing else is called after the group accessor. In particular a request
  with the current name and a new description calls the redescription only.
\<close>

theorem edit_user_group_updates_what_differs:
  assumes "REQ '''' name_var \<noteq> [] \<or> REQ '''' description_var \<noteq> []"
    and "access_user_group_by_id env (db w) user_group_id user_profile = Inr user_group"
  shows "edit_user_group env user_profile user_group_id name_var description_var w =
           (\<lparr>calls = calls w
                @ [Access_user_group_by_id user_group_id (user_id user_profile)]
                @ (if REQ '''' name_var \<noteq> group_name user_group
                   then [Do_update_user_group_name (group_id user_group) (REQ '''' name_var)]
                   else [])
                @ (if REQ '''' description_var \<noteq> group_description user_group
                   then [Do_update_user_group_description (group_id user_group)
                           (REQ '''' description_var)]
                   else []),
             db = (let d1 = (if REQ '''' name_var \<noteq> group_name user_group
                             then do_update_user_group_name env (db w) user_group
                                    (REQ '''' name_var)
                             else db w)
                   in if REQ '''' description_var \<noteq> group_description user_group
                      then do_update_user_group_description env d1 user_group
                             (REQ '''' description_var)
                      else d1)\<rparr>,
            Inr Map.empty)"
  using assms
  by (auto simp add: edit_user_group_def lookup_def action_def record_call_def Let_def)

theorem edit_user_group_updates_what_differs_witness:
  "edit_user_group store_env hamlet 10 (Some ''support'') (Some ''Help desk'') example_world =
     (\<lparr>calls = [Access_user_group_by_id 10 4, Do_update_user_group_description 10 ''Help desk''],
       db = example_store\<lparr>groups := [support\<lparr>group_description := ''Help desk''\<rparr>]\<rparr>\<rparr>,
      Inr Map.empty)"
proof -
  have a: "REQ '''' (Some ''support'') \<noteq> [] \<or> REQ '''' (Some ''Help desk'') \<noteq> []" by simp
  have b: "access_user_group_by_id store_env (db example_world) 10 hamlet = Inr support"
    by (simp add: store_simps)
  show ?thesis
    unfolding edit_user_group_updates_what_differs [OF a b]
    by (simp add: store_simps)
qed

text \<open>
  C8. An edit request that omits the name and supplies a non-empty description, for a
  group whose name is not empty, calls the rename with the empty string; an edit request
  that supplies a non-empty name and omits the description, for a group whose description
  is not empty, calls the redescription with the empty string.
\<close>

theorem edit_user_group_omitted_field_is_cleared:
  assumes "access_user_group_by_id env (db w) user_group_id user_profile = Inr user_group"
  shows "(description \<noteq> [] \<and> group_name user_group \<noteq> [] \<longrightarrow>
            edit_user_group env user_profile user_group_id None (Some description) w =
              (\<lparr>calls = calls w
                   @ [Access_user_group_by_id user_group_id (user_id user_profile),
                      Do_update_user_group_name (group_id user_group) '''']
                   @ (if description \<noteq> group_description user_group
                      then [Do_update_user_group_description (group_id user_group) description]
                      else []),
                db = (let d1 = do_update_user_group_name env (db w) user_group ''''
                      in if description \<noteq> group_description user_group
                         then do_update_user_group_description env d1 user_group description
                         else d1)\<rparr>,
               Inr Map.empty)) \<and>
         (name \<noteq> [] \<and> group_description user_group \<noteq> [] \<longrightarrow>
            edit_user_group env user_profile user_group_id (Some name) None w =
              (\<lparr>calls = calls w
                   @ [Access_user_group_by_id user_group_id (user_id user_profile)]
                   @ (if name \<noteq> group_name user_group
                      then [Do_update_user_group_name (group_id user_group) name]
                      else [])
                   @ [Do_update_user_group_description (group_id user_group) ''''],
                db = do_update_user_group_description env
                       (if name \<noteq> group_name user_group
                        then do_update_user_group_name env (db w) user_group name
                        else db w)
                       user_group ''''\<rparr>,
               Inr Map.empty))"
  using assms
  by (auto simp add: edit_user_group_def lookup_def action_def record_call_def Let_def)

theorem edit_user_group_omitted_field_is_cleared_witness:
  "edit_user_group store_env hamlet 10 None (Some ''Help desk'') example_world =
     (\<lparr>calls = [Access_user_group_by_id 10 4, Do_update_user_group_name 10 '''',
                Do_update_user_group_description 10 ''Help desk''],
       db = example_store\<lparr>groups :=
              [support\<lparr>group_name := '''', group_description := ''Help desk''\<rparr>]\<rparr>\<rparr>,
      Inr Map.empty) \<and>
   edit_user_group store_env hamlet 10 (Some ''helpers'') None example_world =
     (\<lparr>calls = [Access_user_group_by_id 10 4, Do_update_user_group_name 10 ''helpers'',
                Do_update_user_group_description 10 ''''],
       db = example_store\<lparr>groups :=
              [support\<lparr>group_name := ''helpers'', group_description := ''''\<rparr>]\<rparr>\<rparr>,
      Inr Map.empty)"
proof -
  have b: "access_user_group_by_id store_env (db example_world) 10 hamlet = Inr support"
    by (simp add: store_simps)
  have n: "''Help desk'' \<noteq> [] \<and> group_name support \<noteq> []"
    and d: "''helpers'' \<noteq> [] \<and> group_description support \<noteq> []"
    by (simp_all add: support_def)
  from edit_user_group_omitted_field_is_cleared [OF b, of "''Help desk''" "''helpers''"] n d
  show ?thesis
    by (simp add: store_simps)
qed

subsection \<open>The order of the lookups\<close>

text \<open>
  C9. For a non-empty member list, the add path resolves the group first: when the group
  accessor raises, the add path fails with that error without resolving the users, and
  when it succeeds the user resolver is the next call. The remove path resolves the users
  first: when the user resolver raises, the remove path fails with that error without
  resolving the group, and when it succeeds the group accessor is the next call. So with
  both the group id and a user id invalid, the add path reports the group error and the
  remove path the user error.
\<close>

theorem add_resolves_group_first_remove_resolves_users_first:
  assumes "members \<noteq> []"
  shows "(access_user_group_by_id env (db w) user_group_id user_profile = Inl e \<longrightarrow>
            add_members_to_group_backend env user_profile user_group_id members w =
              (w\<lparr>calls := calls w
                   @ [Access_user_group_by_id user_group_id (user_id user_profile)]\<rparr>,
               Inl e)) \<and>
         (access_user_group_by_id env (db w) user_group_id user_profile = Inr user_group \<longrightarrow>
            (\<exists>rest.
               calls (fst (add_members_to_group_backend env user_profile user_group_id members w)) =
                 calls w
                 @ [Access_user_group_by_id user_group_id (user_id user_profile),
                    User_ids_to_users members (user_realm user_profile)]
                 @ rest)) \<and>
         (user_ids_to_users env (db w) members (user_realm user_profile) = Inl e' \<longrightarrow>
            remove_members_from_group_backend env user_profile user_group_id members w =
              (w\<lparr>calls := calls w
                   @ [User_ids_to_users members (user_realm user_profile)]\<rparr>,
               Inl e')) \<and>
         (user_ids_to_users env (db w) members (user_realm user_profile) = Inr user_profiles \<longrightarrow>
            (\<exists>rest.
               calls (fst (remove_members_from_group_backend env user_profile user_group_id
                             members w)) =
                 calls w
                 @ [User_ids_to_users members (user_realm user_profile),
                    Access_user_group_by_id user_group_id (user_id user_profile)]
                 @ rest))"
  using assms
  by (auto simp add: add_members_to_group_backend_def remove_members_from_group_backend_def
        lookup_def action_def record_call_def Let_def split: sum.splits option.splits)

theorem add_resolves_group_first_remove_resolves_users_first_witness:
  "add_members_to_group_backend store_env hamlet 11 [99] example_world =
     (\<lparr>calls = [Access_user_group_by_id 11 4], db = example_store\<rparr>,
      Inl (JsonableError ''Invalid user group'')) \<and>
   remove_members_from_group_backend store_env hamlet 11 [99] example_world =
     (\<lparr>calls = [User_ids_to_users [99] 1], db = example_store\<rparr>,
      Inl (JsonableError ''Invalid user ID: 99''))"
proof -
  have a: "[99::int] \<noteq> []" by simp
  have g: "access_user_group_by_id store_env (db example_world) 11 hamlet =
             Inl (JsonableError ''Invalid user group'')"
    by (simp add: store_simps)
  have u: "user_ids_to_users store_env (db example_world) [99] (user_realm hamlet) =
             Inl (JsonableError ''Invalid user ID: 99'')"
    by (simp add: store_simps)
  from add_resolves_group_first_remove_resolves_users_first
         [OF a, of store_env example_world 11 hamlet "JsonableError ''Invalid user group''"
            _ "JsonableError ''Invalid user ID: 99''"] g u
  show ?thesis
    by (simp add: store_simps)
qed

subsection \<open>Updating the membership: the two sub-operations\<close>

lemma add_members_failure:
  assumes "add_members_to_group_backend env user_profile user_group_id members w = (w1, Inl e)"
  shows "members \<noteq> [] \<and> db w1 = db w \<and>
         (\<forall>g ids. Remove_members_from_user_group g ids \<in> set (calls w1) \<longrightarrow>
                   Remove_members_from_user_group g ids \<in> set (calls w))"
  using assms
  by (auto simp add: add_members_to_group_backend_def lookup_def record_call_def Let_def
        split: if_splits sum.splits option.splits)

lemma remove_members_failure:
  assumes "remove_members_from_group_backend env user_profile user_group_id members w = (w2, Inl e)"
  shows "members \<noteq> [] \<and> db w2 = db w \<and> (\<exists>cs. calls w2 = calls w @ cs)"
  using assms
  by (auto simp add: remove_members_from_group_backend_def lookup_def record_call_def Let_def
        split: if_splits sum.splits option.splits)

lemma compose_two_views:
  "compose_views [f, g] w =
     (case f w of
        (w1, Inl e) \<Rightarrow> (w1, Inl e)
      | (w1, Inr p1) \<Rightarrow>
         (case g w1 of
            (w2, Inl e) \<Rightarrow> (w2, Inl e)
          | (w2, Inr p2) \<Rightarrow> (w2, Inr (p1 ++ p2))))"
  by (simp add: compose_views_def split: prod.splits sum.splits)

text \<open>
  C6. When the add sub-operation raises, the membership update fails with that error and
  returns no payload. When the add sub-operation succeeds and the remove sub-operation
  raises, the membership update fails with the error of the remove sub-operation and
  returns no payload, not even that of the add sub-operation; the store is the one the
  add sub-operation left, and its calls stay recorded: nothing is rolled back.
\<close>

theorem update_user_group_backend_failure_is_not_rolled_back:
  "(add_members_to_group_backend env user_profile user_group_id (REQ [] add_var) w = (w1, Inl e)
      \<longrightarrow> update_user_group_backend env user_profile user_group_id delete_var add_var w =
            (w1, Inl e)) \<and>
   (add_members_to_group_backend env user_profile user_group_id (REQ [] add_var) w = (w1, Inr p)
    \<and> remove_members_from_group_backend env user_profile user_group_id (REQ [] delete_var) w1 =
        (w2, Inl e')
      \<longrightarrow> update_user_group_backend env user_profile user_group_id delete_var add_var w =
            (w2, Inl e') \<and>
          db w2 = db w1 \<and> (\<exists>cs. calls w2 = calls w1 @ cs))"
proof -
  have first: "update_user_group_backend env user_profile user_group_id delete_var add_var w =
                 (w1, Inl e)"
    if a: "add_members_to_group_backend env user_profile user_group_id (REQ [] add_var) w =
             (w1, Inl e)"
  proof -
    from add_members_failure [OF a] have "REQ [] add_var \<noteq> []" by simp
    with a show ?thesis
      by (simp add: update_user_group_backend_def compose_two_views)
  qed
  have second: "update_user_group_backend env user_profile user_group_id delete_var add_var w =
                  (w2, Inl e') \<and>
                db w2 = db w1 \<and> (\<exists>cs. calls w2 = calls w1 @ cs)"
    if a: "add_members_to_group_backend env user_profile user_group_id (REQ [] add_var) w =
             (w1, Inr p)"
      and r: "remove_members_from_group_backend env user_profile user_group_id
                (REQ [] delete_var) w1 = (w2, Inl e')"
  proof -
    from remove_members_failure [OF r]
    have ne: "REQ [] delete_var \<noteq> []" and d: "db w2 = db w1"
      and c: "\<exists>cs. calls w2 = calls w1 @ cs" by simp_all
    from a r ne
    have "update_user_group_backend env user_profile user_group_id delete_var add_var w =
            (w2, Inl e')"
      by (simp add: update_user_group_backend_def compose_two_views)
    with d c show ?thesis by simp
  qed
  from first second show ?thesis by blast
qed

theorem update_user_group_backend_failure_is_not_rolled_back_witness:
  "update_user_group_backend store_env hamlet 10 (Some [5]) (Some [5]) example_world =
     (\<lparr>calls = [Access_user_group_by_id 10 4, User_ids_to_users [5] 1,
                Get_direct_memberships_of_users 10 [5]],
       db = example_store\<rparr>,
      Inl (already_a_member 5)) \<and>
   update_user_group_backend store_env hamlet 10 (Some [6]) (Some [7]) example_world =
     (\<lparr>calls = [Access_user_group_by_id 10 4, User_ids_to_users [7] 1,
                Get_direct_memberships_of_users 10 [7], Bulk_add_members_to_user_group 10 [7],
                User_ids_to_users [6] 1, Access_user_group_by_id 10 4,
                Get_user_group_direct_members 10],
       db = example_store\<lparr>memberships := [(10, 5), (10, 7)]\<rparr>\<rparr>,
      Inl (no_member 6))"
proof -
  let ?w1 = "\<lparr>calls = [Access_user_group_by_id 10 4, User_ids_to_users [5] 1,
                        Get_direct_memberships_of_users 10 [5]],
               db = example_store\<rparr>"
  let ?v1 = "\<lparr>calls = [Access_user_group_by_id 10 4, User_ids_to_users [7] 1,
                        Get_direct_memberships_of_users 10 [7],
                        Bulk_add_members_to_user_group 10 [7]],
               db = example_store\<lparr>memberships := [(10, 5), (10, 7)]\<rparr>\<rparr>"
  let ?v2 = "\<lparr>calls = [Access_user_group_by_id 10 4, User_ids_to_users [7] 1,
                        Get_direct_memberships_of_users 10 [7],
                        Bulk_add_members_to_user_group 10 [7],
                        User_ids_to_users [6] 1, Access_user_group_by_id 10 4,
                        Get_user_group_direct_members 10],
               db = example_store\<lparr>memberships := [(10, 5), (10, 7)]\<rparr>\<rparr>"
  have a: "add_members_to_group_backend store_env hamlet 10 (REQ [] (Some [5])) example_world =
             (?w1, Inl (already_a_member 5))"
    by (auto simp add: add_members_to_group_backend_def store_simps Let_def)
  have b: "add_members_to_group_backend store_env hamlet 10 (REQ [] (Some [7])) example_world =
             (?v1, Inr Map.empty)"
    by (auto simp add: add_members_to_group_backend_def store_simps Let_def)
  have c: "remove_members_from_group_backend store_env hamlet 10 (REQ [] (Some [6])) ?v1 =
             (?v2, Inl (no_member 6))"
    by (auto simp add: remove_members_from_group_backend_def store_simps Let_def)
  from update_user_group_backend_failure_is_not_rolled_back
         [where env = store_env and user_profile = hamlet and user_group_id = 10
            and add_var = "Some [5]" and delete_var = "Some [5]" and w = example_world
            and ?w1.0 = ?w1 and e = "already_a_member 5"]
       a
  have 1: "update_user_group_backend store_env hamlet 10 (Some [5]) (Some [5]) example_world =
             (?w1, Inl (already_a_member 5))"
    by blast
  from update_user_group_backend_failure_is_not_rolled_back
         [where env = store_env and user_profile = hamlet and user_group_id = 10
            and add_var = "Some [7]" and delete_var = "Some [6]" and w = example_world
            and ?w1.0 = ?v1 and p = Map.empty and ?w2.0 = ?v2 and e' = "no_member 6"]
       b c
  have 2: "update_user_group_backend store_env hamlet 10 (Some [6]) (Some [7]) example_world =
             (?v2, Inl (no_member 6))"
    by blast
  from 1 2 show ?thesis by simp
qed

end
